theory Spec2Isabelle
  imports Main "HOL-Library.Word" "HOL-Library.Signed_Division"
begin

unbundle bit_operations_syntax

section \<open>Data model\<close>

text \<open>
  The two commands of package \<open>cli\<close> (\<open>create-image\<close> and \<open>run\<close>) are sequences of calls
  to collaborators that live outside the two source files: the builder, the image
  producer, the key reader, the version parser, the file system and the console.
  A command is modelled as a function that returns the list of collaborator calls it
  made, in order, together with its outcome. What a collaborator answers is a field of
  the record \<open>env\<close>; every theorem quantifies over it, so nothing is assumed about a
  collaborator. Each collaborator is called at most once per invocation, so an answer
  that is a function of the call's arguments loses no generality.
\<close>

text \<open>An error value: \<open>util.NewNewtError(msg)\<close>, or an error returned by a collaborator.\<close>

datatype newt_error = NewtError string

text \<open>Opaque handles of the collaborating packages.\<close>

datatype target = Target string
datatype builder = TargetBuilder string
datatype pkg = TestPkg string
datatype privSignKey = PrivSignKey string

text \<open>\<open>image.ImageVersion\<close>: the fields as lines 132-136 of the image commands assign them.\<close>

record ImageVersion =
  Major :: "8 word"
  Minor :: "8 word"
  Rev :: "16 word"
  BuildNum :: "32 word"

text \<open>The calendar fields of \<open>stat.ModTime()\<close>, each a Go \<open>int\<close>.\<close>

record modTime =
  Year :: int
  Month :: int
  Day :: int
  Hour :: int
  Minute :: int
  Second :: int

text \<open>The package-level variables that the flags of the two commands are bound to.\<close>

record flags =
  useV1 :: bool
  useV2 :: bool
  useLegacyTLV :: bool
  owSrcFilename :: string
  encKeyFilename :: string
  encKeyIndex :: int
  hdrPad :: int
  imagePad :: int
  sections :: string
  extraJtagCmd :: string
  noGDB_flag :: bool

text \<open>
  One constructor per collaborator call, with the arguments of the call.
  \<open>EnterParseKeyArgs\<close> marks an invocation of \<open>parseKeyArgs\<close> itself.
\<close>

datatype event =
    CallTryGetProject
  | CallResolveTarget string
  | CallNewTargetBuilder target
  | CallTargetBuilderForTargetOrUnittest string
  | CallGetTestPkg builder
  | CallInjectSetting builder string string
  | CallSelfTestCreateExe builder
  | CallSelfTestDebug builder
  | CallResolve builder
  | CallPrintln string
  | CallScanf string
  | CallBuild builder
  | CallStat string
  | CallParseVersion string
  | EnterParseKeyArgs "string list"
  | CallReadPrivSignKeys "string list"
  | CallProduceAllV1 builder ImageVersion "privSignKey list" string int int int string bool
  | CallProduceAll builder ImageVersion "privSignKey list" string int int int string bool string
  | CallLoad builder string string
  | CallDebug builder string bool bool string

text \<open>The answers of the collaborators.\<close>

record env =
  tryGetProject :: "newt_error option"
  resolveTarget :: "string \<Rightarrow> target option"
  newTargetBuilder :: "target \<Rightarrow> newt_error + builder"
  targetBuilderForTargetOrUnittest :: "string \<Rightarrow> newt_error + builder"
  getTestPkg :: "builder \<Rightarrow> pkg option"
  selfTestCreateExe :: "builder \<Rightarrow> newt_error option"
  selfTestDebug :: "builder \<Rightarrow> newt_error option"
  resolveSettingValues :: "builder \<Rightarrow> newt_error + (string \<rightharpoonup> string)"
  valueIsTrue :: "string \<Rightarrow> bool"
  scanfToken :: string
  build :: "builder \<Rightarrow> newt_error option"
  appElfPath :: "builder \<Rightarrow> string"
  statModTime :: "string \<Rightarrow> newt_error + modTime"
  parseVersion :: "string \<Rightarrow> newt_error + ImageVersion"
  readPrivSignKeys :: "string list \<Rightarrow> newt_error + privSignKey list"
  produceAllV1 :: "builder \<Rightarrow> ImageVersion \<Rightarrow> privSignKey list \<Rightarrow> string \<Rightarrow> int \<Rightarrow>
                   int \<Rightarrow> int \<Rightarrow> string \<Rightarrow> bool \<Rightarrow> newt_error option"
  produceAll :: "builder \<Rightarrow> ImageVersion \<Rightarrow> privSignKey list \<Rightarrow> string \<Rightarrow> int \<Rightarrow>
                 int \<Rightarrow> int \<Rightarrow> string \<Rightarrow> bool \<Rightarrow> string \<Rightarrow> newt_error option"
  load :: "builder \<Rightarrow> string \<Rightarrow> string \<Rightarrow> newt_error option"
  debug :: "builder \<Rightarrow> string \<Rightarrow> bool \<Rightarrow> bool \<Rightarrow> string \<Rightarrow> newt_error option"

section \<open>Outcomes and sequencing\<close>

text \<open>
  Modelled from the spec: \<open>NewtUsage\<close> is defined in another file of package \<open>cli\<close>.
  The spec's exit behaviour says that any fatal condition prints usage or error context
  and terminates the process with a non-zero status, so \<open>NewtUsage cmd err\<close> ends the
  invocation. The flag records whether a command was passed (usage is printed) or \<open>nil\<close>.
\<close>

datatype exit = Exit bool newt_error

type_synonym 'a proc = "event list \<times> (exit + 'a)"

definition ret :: "'a \<Rightarrow> 'a proc" where
  "ret x = ([], Inr x)"

definition NewtUsage :: "bool \<Rightarrow> newt_error \<Rightarrow> 'a proc" where
  "NewtUsage cmd err = ([], Inl (Exit cmd err))"

text \<open>Statement sequencing: the rest runs only if the first part did not exit.\<close>

definition bnd :: "'a proc \<Rightarrow> ('a \<Rightarrow> 'b proc) \<Rightarrow> 'b proc" where
  "bnd m f =
     (case m of
        (t, Inl e) \<Rightarrow> (t, Inl e)
      | (t, Inr x) \<Rightarrow> (case f x of (t', r) \<Rightarrow> (t @ t', r)))"

text \<open>A collaborator call that cannot fail.\<close>

definition call :: "event \<Rightarrow> 'a \<Rightarrow> 'a proc" where
  "call ev x = ([ev], Inr x)"

text \<open>\<open>x, err := f(...); if err != nil { NewtUsage(cmd, err) }\<close>\<close>

definition callOrUsage :: "bool \<Rightarrow> event \<Rightarrow> newt_error + 'a \<Rightarrow> 'a proc" where
  "callOrUsage cmd ev r =
     bnd (call ev r) (\<lambda>r. case r of Inl err \<Rightarrow> NewtUsage cmd err | Inr x \<Rightarrow> ret x)"

text \<open>\<open>if err := f(...); err != nil { NewtUsage(cmd, err) }\<close>\<close>

definition callErrOrUsage :: "bool \<Rightarrow> event \<Rightarrow> newt_error option \<Rightarrow> unit proc" where
  "callErrOrUsage cmd ev r =
     bnd (call ev r) (\<lambda>r. case r of Some err \<Rightarrow> NewtUsage cmd err | None \<Rightarrow> ret ())"

section \<open>The key identifier: \<open>strconv.ParseUint(s, 10, 8)\<close>\<close>

text \<open>
  The loop of Go's \<open>strconv.ParseUint\<close> at the arguments of line 58: base 10,
  bit size 8. The accumulator is a \<open>uint64\<close>.
\<close>

datatype numError = ErrSyntax | ErrRange

definition lower :: "8 word \<Rightarrow> 8 word" where
  "lower c = c OR (0x78 - 0x58)"

definition cutoff :: "64 word" where
  "cutoff = (2 ^ 64 - 1) div 10 + 1"

definition maxVal :: "64 word" where
  "maxVal = push_bit 8 1 - 1"

definition digitOf :: "8 word \<Rightarrow> 8 word option" where
  "digitOf c =
     (if 0x30 \<le> c \<and> c \<le> 0x39 then Some (c - 0x30)
      else if 0x61 \<le> lower c \<and> lower c \<le> 0x7A then Some (lower c - 0x61 + 10)
      else None)"

fun parseUintLoop :: "64 word \<Rightarrow> string \<Rightarrow> numError + 64 word" where
  "parseUintLoop n [] = Inr n"
| "parseUintLoop n (ch # cs) =
     (case digitOf (of_char ch) of
        None \<Rightarrow> Inl ErrSyntax
      | Some d \<Rightarrow>
          if d \<ge> 10 then Inl ErrSyntax
          else if n \<ge> cutoff then Inl ErrRange
          else let n' = n * 10; n1 = n' + ucast d
               in if n1 < n' \<or> n1 > maxVal then Inl ErrRange
                  else parseUintLoop n1 cs)"

definition ParseUint_10_8 :: "string \<Rightarrow> numError + 64 word" where
  "ParseUint_10_8 s = (if s = [] then Inl ErrSyntax else parseUintLoop 0 s)"

text \<open>
  The spec's words for the same thing: a decimal integer in [0,255]. A decimal integer
  is a non-empty string of the digits 0 to 9; its value is read most significant digit
  first.
\<close>

definition isDecimalDigit :: "char \<Rightarrow> bool" where
  "isDecimalDigit c = (c \<in> set ''0123456789'')"

definition decimalValueFrom :: "nat \<Rightarrow> string \<Rightarrow> nat" where
  "decimalValueFrom n s = foldl (\<lambda>v c. 10 * v + (of_char c - 48)) n s"

definition decimalKeyId :: "string \<Rightarrow> nat option" where
  "decimalKeyId s =
     (if s \<noteq> [] \<and> list_all isDecimalDigit s \<and> decimalValueFrom 0 s \<le> 255
      then Some (decimalValueFrom 0 s) else None)"

section \<open>\<open>parseKeyArgs\<close> (image commands, lines 46-75)\<close>

text \<open>
  Returns the calls made and Go's triple (keys, key ID, error); a \<open>nil\<close> slice is the
  empty list.
\<close>

definition parseKeyArgs ::
  "env \<Rightarrow> flags \<Rightarrow> string list \<Rightarrow> event list \<times> (privSignKey list \<times> 8 word \<times> newt_error option)"
where
  "parseKeyArgs E fl args =
     (if length args = 0 then ([EnterParseKeyArgs args], ([], 0, None))
      else
        case (if length args = 1 then Inr (0, [] @ [args ! 0])
              else if useV1 fl then
                (case ParseUint_10_8 (args ! 1) of
                   Inl err \<Rightarrow> Inl (NewtError ''Key ID must be between 0-255'')
                 | Inr keyIdUint \<Rightarrow> Inr (ucast keyIdUint, take 1 args))
              else Inr (0, args))
        of
          Inl err \<Rightarrow> ([EnterParseKeyArgs args], ([], 0, Some err))
        | Inr (keyId, keyFilenames) \<Rightarrow>
            ([EnterParseKeyArgs args, CallReadPrivSignKeys keyFilenames],
             case readPrivSignKeys E keyFilenames of
               Inl err \<Rightarrow> ([], 0, Some err)
             | Inr keys \<Rightarrow> (keys, keyId, None)))"

text \<open>\<open>keys, _, err := parseKeyArgs(...); if err != nil { NewtUsage(cmd, err) }\<close>\<close>

definition keysOrUsage :: "env \<Rightarrow> flags \<Rightarrow> string list \<Rightarrow> privSignKey list proc" where
  "keysOrUsage E fl args =
     (case parseKeyArgs E fl args of
        (t, (keys, _, err)) \<Rightarrow>
          bnd (t, Inr ()) (\<lambda>_. case err of Some e \<Rightarrow> NewtUsage True e | None \<Rightarrow> ret keys))"

section \<open>\<open>createImageRunCmd\<close> (image commands, lines 77-149)\<close>

text \<open>Lines 132-136. Go's \<open>%\<close> truncates towards zero; the conversions keep the low bits.\<close>

definition versionFromModTime :: "modTime \<Rightarrow> ImageVersion" where
  "versionFromModTime mt =
     \<lparr> Major = word_of_int (Year mt smod 1000),
       Minor = word_of_int (Month mt),
       Rev = word_of_int (Day mt),
       BuildNum = word_of_int (Hour mt * 10000 + Minute mt * 100 + Second mt) \<rparr>"

text \<open>Lines 139-148 of the image commands and lines 107-116 of the run command.\<close>

definition produce :: "env \<Rightarrow> flags \<Rightarrow> builder \<Rightarrow> ImageVersion \<Rightarrow> privSignKey list \<Rightarrow> string \<Rightarrow> unit proc" where
  "produce E fl b ver keys owSrc =
     (if useV1 fl then
        callErrOrUsage False
          (CallProduceAllV1 b ver keys (encKeyFilename fl) (encKeyIndex fl)
             (hdrPad fl) (imagePad fl) (sections fl) (useLegacyTLV fl))
          (produceAllV1 E b ver keys (encKeyFilename fl) (encKeyIndex fl)
             (hdrPad fl) (imagePad fl) (sections fl) (useLegacyTLV fl))
      else
        callErrOrUsage False
          (CallProduceAll b ver keys (encKeyFilename fl) (encKeyIndex fl)
             (hdrPad fl) (imagePad fl) (sections fl) (useLegacyTLV fl) owSrc)
          (produceAll E b ver keys (encKeyFilename fl) (encKeyIndex fl)
             (hdrPad fl) (imagePad fl) (sections fl) (useLegacyTLV fl) owSrc))"

text \<open>The zero value of \<open>image.ImageVersion\<close>, which \<open>ver\<close> holds in timestamp mode until line 132.\<close>

definition zeroVersion :: ImageVersion where
  "zeroVersion = \<lparr> Major = 0, Minor = 0, Rev = 0, BuildNum = 0 \<rparr>"

definition createImageRunCmd :: "env \<Rightarrow> flags \<Rightarrow> string list \<Rightarrow> unit proc" where
  "createImageRunCmd E fl0 args =
     (if length args < 2 then
        NewtUsage True (NewtError ''Must specify target and version'')
      else if useV1 fl0 \<and> useV2 fl0 then
        NewtUsage True (NewtError ''Either -1, or -2, but not both'')
      else
        let fl = (if \<not> useV1 fl0 then fl0\<lparr>useV2 := True\<rparr> else fl0) in
        bnd (callErrOrUsage False CallTryGetProject (tryGetProject E)) (\<lambda>_.
        let targetName = args ! 0 in
        bnd (call (CallResolveTarget targetName) (resolveTarget E targetName)) (\<lambda>t.
        bnd (case t of
               None \<Rightarrow> NewtUsage True (NewtError (''Invalid target name: '' @ targetName))
             | Some t \<Rightarrow> ret t) (\<lambda>t.
        bnd (if args ! 1 = ''timestamp'' then ret (True, zeroVersion)
             else bnd (callOrUsage True (CallParseVersion (args ! 1)) (parseVersion E (args ! 1)))
                    (\<lambda>ver. ret (False, ver))) (\<lambda>(verAsTimestamp, ver).
        bnd (callOrUsage False (CallNewTargetBuilder t) (newTargetBuilder E t)) (\<lambda>b.
        bnd (keysOrUsage E fl (drop 2 args)) (\<lambda>keys.
        bnd (callErrOrUsage False (CallBuild b) (build E b)) (\<lambda>_.
        bnd (if verAsTimestamp then
               bnd (callOrUsage False (CallStat (appElfPath E b)) (statModTime E (appElfPath E b)))
                 (\<lambda>stat. ret (versionFromModTime stat))
             else ret ver) (\<lambda>ver.
        produce E fl b ver keys (owSrcFilename fl))))))))))"

section \<open>\<open>runRunCmd\<close> (run command, lines 35-127)\<close>

text \<open>A Go map read: a missing key gives the empty string.\<close>

definition setting :: "(string \<rightharpoonup> string) \<Rightarrow> string \<Rightarrow> string" where
  "setting settings k = (case settings k of None \<Rightarrow> [] | Some v \<Rightarrow> v)"

text \<open>
  Lines 64-86: the version string. \<open>fmt.Scanf("%s\n", &verStr)\<close> stores the token it
  scans; with no token on the input (an empty line, or end of input) it fails and
  leaves \<open>verStr\<close> as it was. \<open>scanfToken\<close> is the token on the console, empty when
  there is none.
\<close>

definition runVerStr :: "env \<Rightarrow> builder \<Rightarrow> string list \<Rightarrow> string proc" where
  "runVerStr E b args =
     (if length args > 1 then ret (args ! 1)
      else
        bnd (callOrUsage False (CallResolve b) (resolveSettingValues E b)) (\<lambda>settings.
        if \<not> valueIsTrue E (setting settings ''BOOT_LOADER'') \<and>
           \<not> valueIsTrue E (setting settings ''BSP_SIMULATED'')
        then
          bnd (call (CallPrintln ''Enter image version(default 0):'') ()) (\<lambda>_.
          bnd (call (CallScanf [CHR ''%'', CHR ''s'', CHR 0x0A]) (scanfToken E)) (\<lambda>tok.
          ret (if tok = [] then ''0'' else tok)))
        else ret []))"

text \<open>Lines 92-117: the image stage.\<close>

definition runImageStage :: "env \<Rightarrow> flags \<Rightarrow> builder \<Rightarrow> string list \<Rightarrow> string \<Rightarrow> unit proc" where
  "runImageStage E fl b args verStr =
     (if length verStr > 0 then
        bnd (callOrUsage True (CallParseVersion verStr) (parseVersion E verStr)) (\<lambda>ver.
        bnd (if length args > 2 then keysOrUsage E fl (drop 2 args) else ret []) (\<lambda>keys.
        produce E fl b ver keys []))
      else ret ())"

definition runRunCmd :: "env \<Rightarrow> flags \<Rightarrow> string list \<Rightarrow> unit proc" where
  "runRunCmd E fl0 args =
     (if length args < 1 then
        NewtUsage True (NewtError ''Must specify target'')
      else if useV1 fl0 \<and> useV2 fl0 then
        NewtUsage True (NewtError ''Either -1, or -2, but not both'')
      else
        let fl = (if \<not> useV1 fl0 then fl0\<lparr>useV2 := True\<rparr> else fl0) in
        bnd (callErrOrUsage False CallTryGetProject (tryGetProject E)) (\<lambda>_.
        bnd (callOrUsage True (CallTargetBuilderForTargetOrUnittest (args ! 0))
               (targetBuilderForTargetOrUnittest E (args ! 0))) (\<lambda>b.
        bnd (call (CallGetTestPkg b) (getTestPkg E b)) (\<lambda>testPkg.
        if testPkg \<noteq> None then
          bnd (call (CallInjectSetting b ''TESTUTIL_SYSTEM_ASSERT'' ''1'') ()) (\<lambda>_.
          bnd (callErrOrUsage False (CallSelfTestCreateExe b) (selfTestCreateExe E b)) (\<lambda>_.
          callErrOrUsage False (CallSelfTestDebug b) (selfTestDebug E b)))
        else
          bnd (runVerStr E b args) (\<lambda>verStr.
          bnd (callErrOrUsage False (CallBuild b) (build E b)) (\<lambda>_.
          bnd (runImageStage E fl b args verStr) (\<lambda>_.
          bnd (callErrOrUsage False (CallLoad b (extraJtagCmd fl) []) (load E b (extraJtagCmd fl) [])) (\<lambda>_.
          callErrOrUsage False (CallDebug b (extraJtagCmd fl) True (noGDB_flag fl) [])
            (debug E b (extraJtagCmd fl) True (noGDB_flag fl) [])))))))))"

section \<open>The flags each command registers\<close>

text \<open>
  The long names of the flags that \<open>AddImageCommands\<close> (lines 187-214) registers for
  \<open>create-image\<close> and that \<open>AddRunCommands\<close> (lines 148-172) registers for \<open>run\<close>,
  in the order of the source.
\<close>

definition createImageFlags :: "string list" where
  "createImageFlags =
     [''force'', ''rsa-pss'', ''1'', ''2'', ''encrypt'', ''hw-stored-key'', ''pad-header'',
      ''pad-image'', ''sections'', ''legacy-tlvs'', ''overwrite-src'']"

definition runFlags :: "string list" where
  "runFlags =
     [''extrajtagcmd'', ''noGDB'', ''force'', ''rsa-pss'', ''1'', ''2'', ''encrypt'',
      ''hw-stored-key'', ''pad-header'', ''pad-image'', ''sections'']"

section \<open>Reading a trace\<close>

text \<open>The image-production call that lines 139-145 (and 107-113 of the run command) make.\<close>

definition produceEvent :: "flags \<Rightarrow> builder \<Rightarrow> ImageVersion \<Rightarrow> privSignKey list \<Rightarrow> string \<Rightarrow> event" where
  "produceEvent fl b ver keys owSrc =
     (if useV1 fl then
        CallProduceAllV1 b ver keys (encKeyFilename fl) (encKeyIndex fl)
          (hdrPad fl) (imagePad fl) (sections fl) (useLegacyTLV fl)
      else
        CallProduceAll b ver keys (encKeyFilename fl) (encKeyIndex fl)
          (hdrPad fl) (imagePad fl) (sections fl) (useLegacyTLV fl) owSrc)"

fun isProduce :: "event \<Rightarrow> bool" where
  "isProduce (CallProduceAllV1 b ver keys encKey encIdx hp ip secs legacy) = True"
| "isProduce (CallProduceAll b ver keys encKey encIdx hp ip secs legacy ow) = True"
| "isProduce _ = False"

fun producedVersion :: "event \<Rightarrow> ImageVersion option" where
  "producedVersion (CallProduceAllV1 b ver keys encKey encIdx hp ip secs legacy) = Some ver"
| "producedVersion (CallProduceAll b ver keys encKey encIdx hp ip secs legacy ow) = Some ver"
| "producedVersion _ = None"

fun overwriteSource :: "event \<Rightarrow> string option" where
  "overwriteSource (CallProduceAll b ver keys encKey encIdx hp ip secs legacy ow) = Some ow"
| "overwriteSource _ = None"

fun isKeyResolution :: "event \<Rightarrow> bool" where
  "isKeyResolution (EnterParseKeyArgs args) = True"
| "isKeyResolution (CallReadPrivSignKeys fs) = True"
| "isKeyResolution _ = False"

fun isBuild :: "event \<Rightarrow> bool" where
  "isBuild (CallBuild b) = True"
| "isBuild _ = False"

fun isStat :: "event \<Rightarrow> bool" where
  "isStat (CallStat p) = True"
| "isStat _ = False"

fun isPrompt :: "event \<Rightarrow> bool" where
  "isPrompt (CallPrintln m) = True"
| "isPrompt (CallScanf f) = True"
| "isPrompt _ = False"

fun isParseVersion :: "event \<Rightarrow> bool" where
  "isParseVersion (CallParseVersion v) = True"
| "isParseVersion _ = False"

fun isParseNonEmptyVersion :: "event \<Rightarrow> bool" where
  "isParseNonEmptyVersion (CallParseVersion v) = (v \<noteq> [])"
| "isParseNonEmptyVersion _ = False"

text \<open>
  \<open>precedes p q t\<close>: in the trace \<open>t\<close>, no call of kind \<open>q\<close> is made before the first
  call of kind \<open>p\<close>; so a \<open>q\<close> call happens only after a \<open>p\<close> call.
\<close>

fun precedes :: "(event \<Rightarrow> bool) \<Rightarrow> (event \<Rightarrow> bool) \<Rightarrow> event list \<Rightarrow> bool" where
  "precedes p q [] = True"
| "precedes p q (e # es) = (if p e then True else \<not> q e \<and> precedes p q es)"

text \<open>\<open>noLater p q t\<close>: in the trace \<open>t\<close>, no call of kind \<open>q\<close> is made after a call of kind \<open>p\<close>.\<close>

fun noLater :: "(event \<Rightarrow> bool) \<Rightarrow> (event \<Rightarrow> bool) \<Rightarrow> event list \<Rightarrow> bool" where
  "noLater p q [] = True"
| "noLater p q (e # es) = ((p e \<longrightarrow> list_all (\<lambda>x. \<not> q x) es) \<and> noLater p q es)"

section \<open>A sample environment\<close>

text \<open>
  Concrete answers of the collaborators, for evaluating the commands on concrete inputs:
  one known target \<open>t1\<close> that is neither a unit test nor a bootloader nor simulated,
  a version parser that knows two version strings and rejects everything else, a key
  reader that fails on \<open>missing.pem\<close>, an artifact last modified at
  2024-03-07 14:05:09, and an empty console.
\<close>

definition sampleModTime :: modTime where
  "sampleModTime = \<lparr> Year = 2024, Month = 3, Day = 7, Hour = 14, Minute = 5, Second = 9 \<rparr>"

definition sampleVersion :: ImageVersion where
  "sampleVersion = \<lparr> Major = 1, Minor = 3, Rev = 0, BuildNum = 3 \<rparr>"

definition sampleEnv :: env where
  "sampleEnv =
     \<lparr> tryGetProject = None,
       resolveTarget = (\<lambda>n. if n = ''t1'' then Some (Target n) else None),
       newTargetBuilder = (\<lambda>t. case t of Target n \<Rightarrow> Inr (TargetBuilder n)),
       targetBuilderForTargetOrUnittest =
         (\<lambda>n. if n = ''t1'' then Inr (TargetBuilder n) else Inl (NewtError ''unknown target'')),
       getTestPkg = (\<lambda>b. None),
       selfTestCreateExe = (\<lambda>b. None),
       selfTestDebug = (\<lambda>b. None),
       resolveSettingValues = (\<lambda>b. Inr Map.empty),
       valueIsTrue = (\<lambda>v. v \<noteq> [] \<and> v \<noteq> ''0''),
       scanfToken = [],
       build = (\<lambda>b. None),
       appElfPath = (\<lambda>b. ''bin/t1/app.elf''),
       statModTime = (\<lambda>p. Inr sampleModTime),
       parseVersion =
         (\<lambda>s. if s = ''1.3.0.3'' then Inr sampleVersion
              else if s = ''0'' then Inr zeroVersion
              else Inl (NewtError ''invalid version string'')),
       readPrivSignKeys =
         (\<lambda>fs. if ''missing.pem'' \<in> set fs then Inl (NewtError ''cannot read key file'')
               else Inr (map PrivSignKey fs)),
       produceAllV1 = (\<lambda>b ver keys encKey encIdx hp ip secs legacy. None),
       produceAll = (\<lambda>b ver keys encKey encIdx hp ip secs legacy ow. None),
       load = (\<lambda>b jtag imgFile. None),
       debug = (\<lambda>b jtag reset noGDB elfFile. None) \<rparr>"

text \<open>The flag variables as the flag parser leaves them when no flag is given.\<close>

definition defaultFlags :: flags where
  "defaultFlags =
     \<lparr> useV1 = False, useV2 = False, useLegacyTLV = False, owSrcFilename = [],
       encKeyFilename = [], encKeyIndex = - 1, hdrPad = 0, imagePad = 0, sections = [],
       extraJtagCmd = [], noGDB_flag = False \<rparr>"

section \<open>Sequencing lemmas\<close>

lemma bnd_Inl [simp]: "bnd (t, Inl e) f = (t, Inl e)"
  by (simp add: bnd_def)

lemma bnd_ret [simp]: "bnd (ret x) f = f x"
  by (simp add: ret_def bnd_def split: prod.split)

lemma bnd_NewtUsage [simp]: "bnd (NewtUsage c e) f = NewtUsage c e"
  by (simp add: NewtUsage_def)

lemma fst_ret [simp]: "fst (ret x) = []" and snd_ret [simp]: "snd (ret x) = Inr x"
  by (simp_all add: ret_def)

lemma fst_NewtUsage [simp]: "fst (NewtUsage c e) = []"
  and snd_NewtUsage [simp]: "snd (NewtUsage c e) = Inl (Exit c e)"
  by (simp_all add: NewtUsage_def)

section \<open>\<open>strconv.ParseUint(s, 10, 8)\<close> reads a decimal integer in [0,255]\<close>

lemma digitOf_digit:
  assumes "48 \<le> unat w" "unat w \<le> 57"
  shows "\<exists>d. digitOf w = Some d \<and> unat d = unat w - 48 \<and> d < 10"
proof -
  have a: "0x30 \<le> w" "w \<le> 0x39" using assms by (simp_all add: word_le_nat_alt)
  then have "digitOf w = Some (w - 0x30)" by (simp add: digitOf_def)
  moreover have "unat (w - 0x30) = unat w - 48" using a by (simp add: unat_sub)
  moreover have "w - 0x30 < 10" using a by unat_arith
  ultimately show ?thesis by simp
qed

lemma digitOf_other:
  assumes "\<not> (48 \<le> unat w \<and> unat w \<le> 57)" "digitOf w = Some d"
  shows "10 \<le> d"
proof -
  have n: "\<not> (0x30 \<le> w \<and> w \<le> 0x39)" using assms(1) by (simp add: word_le_nat_alt)
  with assms(2) have l: "0x61 \<le> lower w" "lower w \<le> 0x7A" and d: "d = lower w - 0x61 + 10"
    by (auto simp: digitOf_def split: if_splits)
  from l show ?thesis unfolding d by unat_arith
qed

lemma unat_of_char8: "unat (of_char c :: 8 word) = (of_char c :: nat)"
proof -
  have "(of_char c :: 8 word) = of_nat (of_char c)" by (simp add: of_nat_of_char)
  moreover have "(of_char c :: nat) < 256" by (rule nat_of_char_less_256) 
  ultimately show ?thesis by (simp add: unat_of_nat)
qed

lemma char_eq_by_code:
  assumes "(of_char c :: nat) = n" "(of_char d :: nat) = n"
  shows "c = d"
proof -
  from assms have "(of_char c :: nat) = of_char d" by simp
  then show ?thesis by (rule of_char_eqI)
qed

lemma digit_codes:
  "(of_char (CHR ''0'') :: nat) = 48" "(of_char (CHR ''1'') :: nat) = 49"
  "(of_char (CHR ''2'') :: nat) = 50" "(of_char (CHR ''3'') :: nat) = 51"
  "(of_char (CHR ''4'') :: nat) = 52" "(of_char (CHR ''5'') :: nat) = 53"
  "(of_char (CHR ''6'') :: nat) = 54" "(of_char (CHR ''7'') :: nat) = 55"
  "(of_char (CHR ''8'') :: nat) = 56" "(of_char (CHR ''9'') :: nat) = 57"
  by simp_all

lemma isDecimalDigit_range:
  assumes "isDecimalDigit c"
  shows "48 \<le> (of_char c :: nat) \<and> (of_char c :: nat) \<le> 57"
proof -
  from assms have "c = CHR ''0'' \<or> c = CHR ''1'' \<or> c = CHR ''2'' \<or> c = CHR ''3'' \<or> c = CHR ''4''
      \<or> c = CHR ''5'' \<or> c = CHR ''6'' \<or> c = CHR ''7'' \<or> c = CHR ''8'' \<or> c = CHR ''9''"
    by (simp add: isDecimalDigit_def)
  then show ?thesis
    by (elim disjE) (simp_all only: digit_codes, simp_all)
qed

lemma range_isDecimalDigit:
  assumes "48 \<le> (of_char c :: nat)" "(of_char c :: nat) \<le> 57"
  shows "isDecimalDigit c"
proof -
  define k where "k = (of_char c :: nat)"
  have k: "(of_char c :: nat) = k" by (simp add: k_def)
  from assms have "k = 48 \<or> k = 49 \<or> k = 50 \<or> k = 51 \<or> k = 52 \<or> k = 53 \<or> k = 54 \<or> k = 55
      \<or> k = 56 \<or> k = 57"
    unfolding k by arith
  then have "c = CHR ''0'' \<or> c = CHR ''1'' \<or> c = CHR ''2'' \<or> c = CHR ''3'' \<or> c = CHR ''4''
      \<or> c = CHR ''5'' \<or> c = CHR ''6'' \<or> c = CHR ''7'' \<or> c = CHR ''8'' \<or> c = CHR ''9''"
    using char_eq_by_code [OF k] digit_codes by blast
  then show ?thesis by (simp add: isDecimalDigit_def)
qed

lemma decimalValueFrom_Nil: "decimalValueFrom n [] = n"
  by (simp add: decimalValueFrom_def)

lemma decimalValueFrom_Cons:
  "decimalValueFrom n (c # cs) = decimalValueFrom (10 * n + (of_char c - 48)) cs"
  by (simp add: decimalValueFrom_def)

lemma decimalValueFrom_ge: "n \<le> decimalValueFrom n cs"
proof (induction cs arbitrary: n)
  case Nil
  show ?case by (simp add: decimalValueFrom_Nil)
next
  case (Cons c cs)
  have "n \<le> 10 * n + (of_char c - 48)" by simp
  also have "\<dots> \<le> decimalValueFrom (10 * n + (of_char c - 48)) cs" by (rule Cons.IH)
  finally show ?case by (simp add: decimalValueFrom_Cons)
qed


lemma unat_ucast_8_64: "unat (ucast (d :: 8 word) :: 64 word) = unat d"
  by (simp add: unsigned_ucast_eq take_bit_nat_eq_self unsigned_less [THEN less_le_trans])

lemma parseUintLoop_step:
  assumes n: "unat n \<le> 255" and c: "isDecimalDigit c"
  shows "parseUintLoop n (c # cs) =
           (if 10 * unat n + (of_char c - 48) \<le> 255
            then parseUintLoop (of_nat (10 * unat n + (of_char c - 48))) cs
            else Inl ErrRange)"
proof -
  let ?w = "of_char c :: 8 word"
  from isDecimalDigit_range [OF c] have r: "48 \<le> unat ?w" "unat ?w \<le> 57"
    by (simp_all add: unat_of_char8)
  from digitOf_digit [OF r] obtain d where
    d: "digitOf ?w = Some d" "unat d = unat ?w - 48" "d < 10" by blast
  have d9: "unat d \<le> 9" using d(3) by unat_arith
  have dk: "unat d = (of_char c :: nat) - 48" using d(2) by (simp add: unat_of_char8)
  have nc: "\<not> cutoff \<le> n" using n by (simp add: cutoff_def word_le_nat_alt)
  define n1 where "n1 = n * 10 + ucast d"
  define k where "k = 10 * unat n + ((of_char c :: nat) - 48)"
  have u10: "unat (n * 10) = unat n * 10"
    using n by (simp add: unat_word_ariths)
  have u1: "unat n1 = k"
    using n d9 by (simp add: n1_def k_def dk [symmetric] unat_word_ariths u10 unat_ucast_8_64)
  have nlt: "\<not> n1 < n * 10" by (simp add: word_less_nat_alt u1 u10 k_def)
  have gt: "maxVal < n1 \<longleftrightarrow> \<not> k \<le> 255"
    by (auto simp: word_less_nat_alt u1 maxVal_def)
  have "k < 2 ^ 64" using n d9 by (simp add: k_def dk [symmetric])
  then have "unat (of_nat k :: 64 word) = k"
    by (simp add: unat_of_nat)
  with u1 have "unat n1 = unat (of_nat k :: 64 word)" by simp
  then have eq: "n1 = of_nat k"
    by (simp only: word_unat_eq_iff)
  have d10: "\<not> 10 \<le> d" using d(3) by (simp add: not_le)
  have loop: "parseUintLoop n (c # cs) =
      (if maxVal < n1 then Inl ErrRange else parseUintLoop n1 cs)"
    using d(1) d10 nc nlt by (simp add: Let_def n1_def)
  show ?thesis
  proof (cases "k \<le> 255")
    case True
    with gt have "\<not> maxVal < n1" by simp
    with loop have "parseUintLoop n (c # cs) = parseUintLoop (of_nat k) cs"
      by (simp only: if_False eq)
    with True show ?thesis by (simp only: k_def if_True)
  next
    case False
    with gt have "maxVal < n1" by simp
    with loop have "parseUintLoop n (c # cs) = Inl ErrRange"
      by (simp only: if_True)
    with False show ?thesis by (simp only: k_def if_False)
  qed
qed

lemma parseUintLoop_nondigit:
  assumes "\<not> isDecimalDigit c"
  shows "parseUintLoop n (c # cs) = Inl ErrSyntax"
proof -
  let ?w = "of_char c :: 8 word"
  from assms have r: "\<not> (48 \<le> unat ?w \<and> unat ?w \<le> 57)"
    using range_isDecimalDigit [of c] by (auto simp: unat_of_char8)
  show ?thesis
  proof (cases "digitOf ?w")
    case None
    then show ?thesis by simp
  next
    case (Some d)
    from digitOf_other [OF r Some] have "10 \<le> d" .
    with Some show ?thesis by simp
  qed
qed

lemma parseUintLoop_ok:
  assumes "unat n \<le> 255" "list_all isDecimalDigit cs" "decimalValueFrom (unat n) cs \<le> 255"
  shows "parseUintLoop n cs = Inr (of_nat (decimalValueFrom (unat n) cs))"
  using assms
proof (induction cs arbitrary: n)
  case Nil
  then show ?case by (simp add: decimalValueFrom_Nil)
next
  case (Cons c cs)
  let ?k = "10 * unat n + ((of_char c :: nat) - 48)"
  from Cons.prems have c: "isDecimalDigit c" and cs: "list_all isDecimalDigit cs" by simp_all
  from Cons.prems(3) have v: "decimalValueFrom ?k cs \<le> 255"
    by (simp add: decimalValueFrom_Cons)
  with decimalValueFrom_ge [of ?k cs] have k: "?k \<le> 255" by simp
  then have uk: "unat (of_nat ?k :: 64 word) = ?k" by (simp add: unat_of_nat del: of_nat_add of_nat_mult)
  have "parseUintLoop n (c # cs) = parseUintLoop (of_nat ?k) cs"
    using parseUintLoop_step [OF Cons.prems(1) c, of cs] k by (simp only: if_True)
  also have "\<dots> = Inr (of_nat (decimalValueFrom (unat (of_nat ?k :: 64 word)) cs))"
    by (rule Cons.IH) (simp_all only: uk k cs v)
  finally show ?case by (simp only: uk decimalValueFrom_Cons)
qed

lemma parseUintLoop_bad:
  assumes "unat n \<le> 255" "\<not> (list_all isDecimalDigit cs \<and> decimalValueFrom (unat n) cs \<le> 255)"
  shows "isl (parseUintLoop n cs)"
  using assms
proof (induction cs arbitrary: n)
  case Nil
  then show ?case by (simp add: decimalValueFrom_Nil)
next
  case (Cons c cs)
  let ?k = "10 * unat n + ((of_char c :: nat) - 48)"
  show ?case
  proof (cases "isDecimalDigit c")
    case False
    then have "parseUintLoop n (c # cs) = Inl ErrSyntax" by (rule parseUintLoop_nondigit)
    then show ?thesis by (simp only: sum.disc)
  next
    case True
    note step = parseUintLoop_step [OF Cons.prems(1) True, of cs]
    show ?thesis
    proof (cases "?k \<le> 255")
      case False
      with step have "parseUintLoop n (c # cs) = Inl ErrRange" by (simp only: if_False)
      then show ?thesis by (simp only: sum.disc)
    next
      case k: True
      then have uk: "unat (of_nat ?k :: 64 word) = ?k"
        by (simp add: unat_of_nat del: of_nat_add of_nat_mult)
      from Cons.prems(2) True
      have "\<not> (list_all isDecimalDigit cs \<and> decimalValueFrom ?k cs \<le> 255)"
        by (simp add: decimalValueFrom_Cons)
      then have "isl (parseUintLoop (of_nat ?k) cs)"
        by (intro Cons.IH) (simp_all only: uk k not_False_eq_True)
      with step k show ?thesis by (simp only: if_True)
    qed
  qed
qed

lemma ParseUint_10_8_decimal:
  "(case decimalKeyId s of
      Some k \<Rightarrow> ParseUint_10_8 s = Inr (of_nat k)
    | None \<Rightarrow> isl (ParseUint_10_8 s))"
proof (cases "s \<noteq> [] \<and> list_all isDecimalDigit s \<and> decimalValueFrom 0 s \<le> 255")
  case True
  then have "parseUintLoop 0 s = Inr (of_nat (decimalValueFrom 0 s))"
    using parseUintLoop_ok [of 0 s] by simp
  with True show ?thesis by (simp add: decimalKeyId_def ParseUint_10_8_def)
next
  case False
  show ?thesis
  proof (cases "s = []")
    case True
    then show ?thesis by (simp add: decimalKeyId_def ParseUint_10_8_def)
  next
    case ne: False
    with False have "isl (parseUintLoop 0 s)"
      using parseUintLoop_bad [of 0 s] by simp
    with False ne show ?thesis by (auto simp: decimalKeyId_def ParseUint_10_8_def)
  qed
qed

lemma decimalKeyId_le: "decimalKeyId s = Some k \<Longrightarrow> k \<le> 255"
  by (auto simp: decimalKeyId_def split: if_splits)

lemma ucast_keyId:
  assumes "k \<le> 255"
  shows "(ucast (of_nat k :: 64 word) :: 8 word) = of_nat k"
proof -
  have "k < 2 ^ 64" using assms by simp
  then have u: "unat (of_nat k :: 64 word) = k" by (simp add: unat_of_nat)
  have "(ucast w :: 8 word) = of_nat (unat w)" for w :: "64 word" by simp
  from this [of "of_nat k"] show ?thesis by (simp only: u)
qed

section \<open>The key-argument resolver\<close>

text \<open>
  C4. With the legacy (V1) format active and at least two arguments, \<open>parseKeyArgs\<close>
  reads the second argument as the key ID: when it is a decimal integer in [0,255] the
  key ID returned is its value, and the one key file read is the first argument (a
  failure to load it is returned as the error); otherwise the result is the error
  "Key ID must be between 0-255" and no key file is read. Arguments beyond the second
  have no effect on the result.
\<close>

theorem parseKeyArgs_legacy:
  assumes "useV1 fl" and "2 \<le> length args"
  shows "parseKeyArgs E fl args =
     (case decimalKeyId (args ! 1) of
        None \<Rightarrow>
          ([EnterParseKeyArgs args], ([], 0, Some (NewtError ''Key ID must be between 0-255'')))
      | Some k \<Rightarrow>
          ([EnterParseKeyArgs args, CallReadPrivSignKeys [args ! 0]],
           (case readPrivSignKeys E [args ! 0] of
              Inl err \<Rightarrow> ([], 0, Some err)
            | Inr keys \<Rightarrow> (keys, of_nat k, None))))
     \<and> snd (parseKeyArgs E fl args) = snd (parseKeyArgs E fl (take 2 args))"
proof -
  from assms(2) obtain a0 a1 rest where args: "args = a0 # a1 # rest"
    by (cases args; cases "tl args") auto
  have t: "take 1 args = [a0]" by (simp add: args)
  show ?thesis
  proof (cases "decimalKeyId a1")
    case None
    with ParseUint_10_8_decimal [of a1] obtain e where "ParseUint_10_8 a1 = Inl e"
      by (cases "ParseUint_10_8 a1") auto
    with None assms(1) show ?thesis by (simp add: parseKeyArgs_def args)
  next
    case (Some k)
    with ParseUint_10_8_decimal [of a1] have p: "ParseUint_10_8 a1 = Inr (of_nat k)" by simp
    from Some have "k \<le> 255" by (rule decimalKeyId_le)
    then have u: "(ucast (of_nat k :: 64 word) :: 8 word) = of_nat k" by (rule ucast_keyId)
    from Some assms(1) p u show ?thesis
      by (simp add: parseKeyArgs_def args split: sum.split)
  qed
qed

theorem parseKeyArgs_legacy_witness:
  "useV1 (defaultFlags\<lparr>useV1 := True\<rparr>) \<and> 2 \<le> length [''k.pem'', ''7'', ''other.pem''] \<and>
   parseKeyArgs sampleEnv (defaultFlags\<lparr>useV1 := True\<rparr>) [''k.pem'', ''7'', ''other.pem''] =
     ([EnterParseKeyArgs [''k.pem'', ''7'', ''other.pem''], CallReadPrivSignKeys [''k.pem'']],
      ([PrivSignKey ''k.pem''], 7, None))"
  using parseKeyArgs_legacy [of "defaultFlags\<lparr>useV1 := True\<rparr>" "[''k.pem'', ''7'', ''other.pem'']" sampleEnv]
  by (simp add: defaultFlags_def sampleEnv_def decimalKeyId_def isDecimalDigit_def
      decimalValueFrom_def)

text \<open>
  C5. With the current (V2) format active (\<open>useV1\<close> unset; both commands leave exactly
  one of the two format variables set before they call the resolver), \<open>parseKeyArgs\<close>
  reads every argument as a key filename and returns key ID 0. A non-zero key ID is
  returned only with the legacy format active.
\<close>

theorem parseKeyArgs_current:
  "(\<not> useV1 fl \<longrightarrow>
      parseKeyArgs E fl args =
        (if args = [] then ([EnterParseKeyArgs args], ([], 0, None))
         else ([EnterParseKeyArgs args, CallReadPrivSignKeys args],
               (case readPrivSignKeys E args of
                  Inl err \<Rightarrow> ([], 0, Some err)
                | Inr keys \<Rightarrow> (keys, 0, None)))))
   \<and> (fst (snd (snd (parseKeyArgs E fl args))) \<noteq> 0 \<longrightarrow> useV1 fl \<and> 2 \<le> length args)"
proof (cases args)
  case Nil
  then show ?thesis by (simp add: parseKeyArgs_def)
next
  case (Cons a0 rest)
  show ?thesis
  proof (cases rest)
    case Nil
    with Cons show ?thesis by (simp add: parseKeyArgs_def split: sum.split)
  next
    case (Cons a1 rest')
    with \<open>args = a0 # rest\<close> show ?thesis
      by (cases "useV1 fl") (simp_all add: parseKeyArgs_def split: sum.split)
  qed
qed

theorem parseKeyArgs_current_witness:
  "\<not> useV1 defaultFlags \<and>
   parseKeyArgs sampleEnv defaultFlags [''k1.pem'', ''7''] =
     ([EnterParseKeyArgs [''k1.pem'', ''7''], CallReadPrivSignKeys [''k1.pem'', ''7'']],
      ([PrivSignKey ''k1.pem'', PrivSignKey ''7''], 0, None)) \<and>
   fst (snd (snd (parseKeyArgs sampleEnv (defaultFlags\<lparr>useV1 := True\<rparr>) [''k1.pem'', ''7'']))) \<noteq> 0 \<and>
   useV1 (defaultFlags\<lparr>useV1 := True\<rparr>)"
proof -
  have a: "\<not> useV1 defaultFlags" by (simp add: defaultFlags_def)
  have b: "fst (snd (snd (parseKeyArgs sampleEnv (defaultFlags\<lparr>useV1 := True\<rparr>) [''k1.pem'', ''7'']))) \<noteq> 0"
    by (simp add: parseKeyArgs_def defaultFlags_def sampleEnv_def ParseUint_10_8_def digitOf_def
        cutoff_def maxVal_def Let_def)
  from a b parseKeyArgs_current [of defaultFlags sampleEnv "[''k1.pem'', ''7'']"]
    parseKeyArgs_current [of "defaultFlags\<lparr>useV1 := True\<rparr>" sampleEnv "[''k1.pem'', ''7'']"]
  show ?thesis by (simp add: sampleEnv_def)
qed

section \<open>The version derived from the modification time\<close>

lemma smod_nonneg: "0 \<le> (y::int) \<Longrightarrow> y smod 1000 = y mod 1000"
  by (cases "y = 0") (simp_all add: smod_int_alt_def)

lemma uint32_word_of_int:
  "0 \<le> x \<Longrightarrow> x < 2 ^ 32 \<Longrightarrow> uint (word_of_int x :: 32 word) = x"
  by (simp add: uint_word_of_int)

text \<open>
  C6. The version that \<open>create-image\<close> derives in timestamp mode is a function of the
  calendar fields of the modification time alone. For a calendar moment (a year that is
  not negative, month 1 to 12, day 1 to 31, hour 0 to 23, minute and second 0 to 59):
  Major is the year modulo 1000, truncated to 8 bits; Minor is the month; Rev is the day;
  BuildNum is hour * 10000 + minute * 100 + second. The modification time
  2024-03-07 14:05:09 gives Major 24, Minor 3, Rev 7, BuildNum 140509.
\<close>

theorem versionFromModTime_fields:
  assumes "0 \<le> Year mt"
    and "1 \<le> Month mt" "Month mt \<le> 12"
    and "1 \<le> Day mt" "Day mt \<le> 31"
    and "0 \<le> Hour mt" "Hour mt \<le> 23"
    and "0 \<le> Minute mt" "Minute mt \<le> 59"
    and "0 \<le> Second mt" "Second mt \<le> 59"
  shows "uint (Major (versionFromModTime mt)) = (Year mt mod 1000) mod 2 ^ 8
       \<and> uint (Minor (versionFromModTime mt)) = Month mt
       \<and> uint (Rev (versionFromModTime mt)) = Day mt
       \<and> uint (BuildNum (versionFromModTime mt)) = Hour mt * 10000 + Minute mt * 100 + Second mt
       \<and> versionFromModTime \<lparr> Year = 2024, Month = 3, Day = 7, Hour = 14, Minute = 5, Second = 9 \<rparr>
           = \<lparr> Major = 24, Minor = 3, Rev = 7, BuildNum = 140509 \<rparr>"
proof -
  have major: "uint (Major (versionFromModTime mt)) = (Year mt mod 1000) mod 2 ^ 8"
    using assms(1) by (simp add: versionFromModTime_def smod_nonneg uint_word_of_int take_bit_eq_mod)
  have minor: "uint (Minor (versionFromModTime mt)) = Month mt"
    using assms(2,3) by (simp add: versionFromModTime_def uint_word_of_int)
  have rev: "uint (Rev (versionFromModTime mt)) = Day mt"
    using assms(4,5) by (simp add: versionFromModTime_def uint_word_of_int)
  have "0 \<le> Hour mt * 10000 + Minute mt * 100 + Second mt"
    using assms(6,8,10) by simp
  moreover have "Hour mt * 10000 + Minute mt * 100 + Second mt < 2 ^ 32"
    using assms(7,9,11) by simp
  ultimately have "uint (word_of_int (Hour mt * 10000 + Minute mt * 100 + Second mt) :: 32 word) =
      Hour mt * 10000 + Minute mt * 100 + Second mt"
    by (rule uint32_word_of_int)
  then have build: "uint (BuildNum (versionFromModTime mt)) =
      Hour mt * 10000 + Minute mt * 100 + Second mt"
    by (simp only: versionFromModTime_def ImageVersion.simps)
  have ex: "versionFromModTime \<lparr> Year = 2024, Month = 3, Day = 7, Hour = 14, Minute = 5, Second = 9 \<rparr>
           = \<lparr> Major = 24, Minor = 3, Rev = 7, BuildNum = 140509 \<rparr>"
    by (simp add: versionFromModTime_def smod_int_alt_def)
  from major minor rev build ex show ?thesis by (simp only: simp_thms)
qed

theorem versionFromModTime_fields_witness:
  "0 \<le> Year sampleModTime \<and> 1 \<le> Month sampleModTime \<and> Month sampleModTime \<le> 12
   \<and> 1 \<le> Day sampleModTime \<and> Day sampleModTime \<le> 31
   \<and> 0 \<le> Hour sampleModTime \<and> Hour sampleModTime \<le> 23
   \<and> 0 \<le> Minute sampleModTime \<and> Minute sampleModTime \<le> 59
   \<and> 0 \<le> Second sampleModTime \<and> Second sampleModTime \<le> 59
   \<and> uint (Major (versionFromModTime sampleModTime)) = 24
   \<and> uint (Minor (versionFromModTime sampleModTime)) = 3
   \<and> uint (Rev (versionFromModTime sampleModTime)) = 7
   \<and> uint (BuildNum (versionFromModTime sampleModTime)) = 140509"
  using versionFromModTime_fields [of sampleModTime]
  by (simp add: sampleModTime_def)

section \<open>Flag validation\<close>

text \<open>
  C8. With both format variables set (\<open>-1\<close> and \<open>-2\<close> given together), each of the two
  commands ends with an argument error, reported with the usage text, whatever the
  arguments and the environment are, and before any collaborator is called: the trace is
  empty, so no project or target is resolved and no later stage is entered.
\<close>

theorem both_format_flags_rejected:
  assumes "useV1 fl" and "useV2 fl"
  shows "createImageRunCmd E fl args =
           ([], Inl (Exit True (NewtError
              (if length args < 2 then ''Must specify target and version''
               else ''Either -1, or -2, but not both''))))
       \<and> runRunCmd E fl args =
           ([], Inl (Exit True (NewtError
              (if length args < 1 then ''Must specify target''
               else ''Either -1, or -2, but not both''))))"
  using assms by (simp add: createImageRunCmd_def runRunCmd_def NewtUsage_def)

theorem both_format_flags_rejected_witness:
  "useV1 (defaultFlags\<lparr>useV1 := True, useV2 := True\<rparr>)
   \<and> useV2 (defaultFlags\<lparr>useV1 := True, useV2 := True\<rparr>)
   \<and> createImageRunCmd sampleEnv (defaultFlags\<lparr>useV1 := True, useV2 := True\<rparr>) [''t1'', ''1.3.0.3''] =
       ([], Inl (Exit True (NewtError ''Either -1, or -2, but not both'')))
   \<and> runRunCmd sampleEnv (defaultFlags\<lparr>useV1 := True, useV2 := True\<rparr>) [''t1'', ''1.3.0.3''] =
       ([], Inl (Exit True (NewtError ''Either -1, or -2, but not both'')))"
  using both_format_flags_rejected [of "defaultFlags\<lparr>useV1 := True, useV2 := True\<rparr>" sampleEnv "[''t1'', ''1.3.0.3'']"]
  by simp

end
